theory Spec2Isabelle
  imports Main "HOL-Library.AList" "HOL-Library.Sublist"
begin

section \<open>The service manager of the context engine (scripts/service\_manager.py)\<close>

text \<open>
  The program coordinates files, processes, signals and sockets.  The embedding makes all of
  that explicit: the file tree is a value, every system call is an entry of an event log, the
  answers of the operating system come from an environment of oracles indexed by the number
  of events so far, and every Python exception is a value of type \<open>exn\<close>.
\<close>

subsection \<open>Exceptions, signals, the file tree\<close>

text \<open>
  \<open>OSError\<close> stands for the whole family (IOError, FileNotFoundError, PermissionError, ...),
  \<open>ValueError\<close> includes UnicodeDecodeError.  All three are subclasses of \<open>Exception\<close>.
\<close>

datatype exn = OSError | ValueError | OverflowError

datatype signal = SIG0 | SIGTERM | SIGKILL

text \<open>
  A node of the file tree: a text file with the text \<open>read_text\<close> returns, a file whose
  bytes are not valid text (reading raises UnicodeDecodeError, copying works), a file that
  cannot be opened for reading (PermissionError), or a directory.
\<close>

datatype node = Text string | Undecodable | Unreadable | Dir

text \<open>
  Paths are relative to MEMORY\_DIR and written with \<open>/\<close>; SCRIPT\_DIR is its subdirectory
  \<open>scripts\<close>.  The list order is the order in which a directory is listed.
\<close>

type_synonym fs = "(string \<times> node) list"

datatype fs_op =
    WriteText string string
  | Truncate string
  | Unlink string
  | Mkdir string
  | Copy string string
  | Chmod string

datatype event =
    Kill int signal
  | Sleep nat
  | Connect nat
  | Run "string list"
  | Popen "string list"
  | Clock string
  | FsOp fs_op
  | Browser string

text \<open>
  The world: the file tree, the log of system calls made so far, and (for reasoning about
  intermediate states) every file tree the run has passed through.
\<close>

record world =
  files :: fs
  events :: "event list"
  history :: "fs list"

text \<open>
  The environment: what the operating system answers.  Every oracle takes the number of
  events logged so far, so that the same call can be answered differently at different
  moments.
  \<^item> \<open>kill_ok n pid sig\<close>: \<open>os.kill(pid, sig)\<close> succeeds (otherwise it raises OSError);
  \<^item> \<open>pid_limit\<close>: \<open>os.kill\<close> raises OverflowError for a pid outside
    \<open>[-pid_limit, pid_limit)\<close> (the width of the C type the pid is converted to);
  \<^item> \<open>fs_fault n\<close>: the file-system change attempted at moment \<open>n\<close> fails with OSError
    (permissions, read-only or full disk);
  \<^item> \<open>port_open n port\<close>: a TCP connect to the local port succeeds;
  \<^item> \<open>spawn n cmd\<close>: the pid of the child \<open>subprocess.Popen\<close> starts, or its exception;
  \<^item> \<open>run n cmd fs\<close>: \<open>subprocess.run\<close>: return code and standard output, or an exception,
    and the file tree the child leaves behind;
  \<^item> \<open>strftime n fmt\<close>: \<open>datetime.now().strftime(fmt)\<close>;
  \<^item> \<open>int_max_str_digits\<close>: \<open>sys.get_int_max_str_digits()\<close>, 0 when there is no limit;
  \<^item> \<open>project_dir_name\<close>: \<open>MEMORY_DIR.parent.name\<close>; \<open>executable\<close>: \<open>sys.executable\<close>;
  \<^item> \<open>post_hook_content\<close>: the text of the hook script that \<open>setup_hooks\<close> writes, a
    string literal of the source.

  What the program prints is not part of the model.
\<close>

record env =
  kill_ok :: "nat \<Rightarrow> int \<Rightarrow> signal \<Rightarrow> bool"
  pid_limit :: int
  fs_fault :: "nat \<Rightarrow> bool"
  port_open :: "nat \<Rightarrow> nat \<Rightarrow> bool"
  spawn :: "nat \<Rightarrow> string list \<Rightarrow> exn + int"
  run :: "nat \<Rightarrow> string list \<Rightarrow> fs \<Rightarrow> (exn + int \<times> string) \<times> fs"
  strftime :: "nat \<Rightarrow> string \<Rightarrow> string"
  int_max_str_digits :: nat
  project_dir_name :: string
  executable :: string
  post_hook_content :: string

subsection \<open>Computations that change the world and may raise\<close>

type_synonym 'a io = "world \<Rightarrow> (exn + 'a) \<times> world"

definition io_return :: "'a \<Rightarrow> 'a io" where
  "io_return x = (\<lambda>w. (Inr x, w))"

definition io_raise :: "exn \<Rightarrow> 'a io" where
  "io_raise e = (\<lambda>w. (Inl e, w))"

definition io_bind :: "'a io \<Rightarrow> ('a \<Rightarrow> 'b io) \<Rightarrow> 'b io" where
  "io_bind m f = (\<lambda>w. case m w of (Inl e, w') \<Rightarrow> (Inl e, w') | (Inr x, w') \<Rightarrow> f x w')"

text \<open>\<open>try: m except ...: h e\<close>; a handler re-raises what its except clause does not name.\<close>

definition io_try :: "'a io \<Rightarrow> (exn \<Rightarrow> 'a io) \<Rightarrow> 'a io" where
  "io_try m h = (\<lambda>w. case m w of (Inl e, w') \<Rightarrow> h e w' | (Inr x, w') \<Rightarrow> (Inr x, w'))"

definition io_lift :: "exn + 'a \<Rightarrow> 'a io" where
  "io_lift r = (\<lambda>w. (r, w))"

definition log_event :: "event \<Rightarrow> unit io" where
  "log_event e = (\<lambda>w. (Inr (), w\<lparr>events := events w @ [e]\<rparr>))"

definition sleep :: "nat \<Rightarrow> unit io" where
  \<comment> \<open>\<open>time.sleep\<close>, the duration in milliseconds\<close>
  "sleep ms = log_event (Sleep ms)"

subsection \<open>Strings as Python has them\<close>

definition nl :: char where
  "nl = CHR 0x0A"

definition py_isspace :: "char \<Rightarrow> bool" where
  \<comment> \<open>the ASCII characters \<open>str.isspace\<close> and the regex class \<open>\\s\<close> accept\<close>
  "py_isspace c = (of_char c \<in> {9, 10, 11, 12, 13, 28, 29, 30, 31, 32 :: nat})"

definition strip :: "string \<Rightarrow> string" where
  "strip s = rev (dropWhile py_isspace (rev (dropWhile py_isspace s)))"

definition is_digit :: "char \<Rightarrow> bool" where
  "is_digit c = (48 \<le> (of_char c :: nat) \<and> (of_char c :: nat) \<le> 57)"

definition digit_val :: "char \<Rightarrow> int" where
  "digit_val c = int (of_char c) - 48"

fun digits_ok :: "string \<Rightarrow> bool" where
  \<comment> \<open>digits with single underscores between them\<close>
  "digits_ok [] = False"
| "digits_ok [c] = is_digit c"
| "digits_ok (c # d # cs) =
     (is_digit c \<and> (if d = CHR ''_'' then digits_ok cs else digits_ok (d # cs)))"

definition digits_value :: "string \<Rightarrow> int" where
  "digits_value s = foldl (\<lambda>acc c. 10 * acc + digit_val c) 0 (filter is_digit s)"

definition py_int :: "env \<Rightarrow> string \<Rightarrow> exn + int" where
  \<comment> \<open>\<open>int(s)\<close> in base 10: surrounding whitespace, an optional sign, digits; more digits
      than the interpreter's limit (checked above 640 digits only) is a ValueError\<close>
  "py_int env s =
     (let t = strip s;
          neg = (case t of [] \<Rightarrow> False | c # _ \<Rightarrow> c = CHR ''-'');
          body = (case t of [] \<Rightarrow> [] | c # r \<Rightarrow> if c = CHR ''-'' \<or> c = CHR ''+'' then r else t);
          n = length (filter is_digit body)
      in if \<not> digits_ok body then Inl ValueError
         else if 640 < n \<and> 0 < int_max_str_digits env \<and> int_max_str_digits env < n
           then Inl ValueError
         else Inr (if neg then - digits_value body else digits_value body))"

function nat_digits :: "nat \<Rightarrow> string" where
  \<comment> \<open>the decimal digits of a number\<close>
  "nat_digits n =
     (if n < 10 then [''0123456789'' ! n]
      else nat_digits (n div 10) @ [''0123456789'' ! (n mod 10)])"
  by pat_completeness auto
termination
  by (relation "measure id") auto

declare nat_digits.simps [simp del]

definition py_str :: "int \<Rightarrow> string" where
  \<comment> \<open>\<open>str(n)\<close> for an integer\<close>
  "py_str n = (if n < 0 then CHR ''-'' # nat_digits (nat (- n)) else nat_digits (nat n))"

subsection \<open>File operations\<close>

definition parent :: "string \<Rightarrow> string option" where
  \<comment> \<open>the directory part of a path; \<open>None\<close> for an entry of MEMORY\_DIR itself\<close>
  "parent p = (if CHR ''/'' \<in> set p
     then Some (rev (tl (dropWhile (\<lambda>c. c \<noteq> CHR ''/'') (rev p)))) else None)"

definition basename :: "string \<Rightarrow> string" where
  "basename p = rev (takeWhile (\<lambda>c. c \<noteq> CHR ''/'') (rev p))"

definition parent_ok :: "fs \<Rightarrow> string \<Rightarrow> bool" where
  "parent_ok t p = (case parent p of None \<Rightarrow> True | Some d \<Rightarrow> map_of t d = Some Dir)"

definition path_exists :: "string \<Rightarrow> bool io" where
  \<comment> \<open>\<open>Path.exists\<close>: answered from the tree; a directory that may not be searched is not modelled\<close>
  "path_exists p = (\<lambda>w. (Inr (map_of (files w) p \<noteq> None), w))"

definition read_text :: "string \<Rightarrow> string io" where
  "read_text p = (\<lambda>w. case map_of (files w) p of
       Some (Text s) \<Rightarrow> (Inr s, w)
     | Some Undecodable \<Rightarrow> (Inl ValueError, w)
     | _ \<Rightarrow> (Inl OSError, w))"

text \<open>
  A change of the file tree: the attempt is logged, the fault oracle may refuse it, the
  operation itself may refuse it, and otherwise the new tree is installed and recorded.
\<close>

definition fs_mutate :: "env \<Rightarrow> fs_op \<Rightarrow> (fs \<Rightarrow> exn + fs) \<Rightarrow> unit io" where
  "fs_mutate env op f = (\<lambda>w.
     let w1 = w\<lparr>events := events w @ [FsOp op]\<rparr> in
     if fs_fault env (length (events w)) then (Inl OSError, w1)
     else case f (files w) of
            Inl e \<Rightarrow> (Inl e, w1)
          | Inr t \<Rightarrow> (Inr (), w1\<lparr>files := t, history := history w @ [t]\<rparr>))"

definition write_fs :: "string \<Rightarrow> node \<Rightarrow> fs \<Rightarrow> exn + fs" where
  "write_fs p n t =
     (if map_of t p = Some Dir \<or> \<not> parent_ok t p then Inl OSError
      else Inr (AList.update p n t))"

definition write_text :: "env \<Rightarrow> string \<Rightarrow> string \<Rightarrow> unit io" where
  "write_text env p s = fs_mutate env (WriteText p s) (write_fs p (Text s))"

definition open_truncate :: "env \<Rightarrow> string \<Rightarrow> unit io" where
  \<comment> \<open>\<open>open(p, 'w')\<close>\<close>
  "open_truncate env p = fs_mutate env (Truncate p) (write_fs p (Text []))"

definition unlink_fs :: "string \<Rightarrow> fs \<Rightarrow> exn + fs" where
  "unlink_fs p t = (case map_of t p of
       None \<Rightarrow> Inl OSError
     | Some Dir \<Rightarrow> Inl OSError
     | Some _ \<Rightarrow> Inr (AList.delete p t))"

definition unlink :: "env \<Rightarrow> string \<Rightarrow> unit io" where
  "unlink env p = fs_mutate env (Unlink p) (unlink_fs p)"

definition mkdir_fs :: "string \<Rightarrow> fs \<Rightarrow> exn + fs" where
  "mkdir_fs p t =
     (if map_of t p \<noteq> None \<or> \<not> parent_ok t p then Inl OSError
      else Inr (AList.update p Dir t))"

definition mkdir :: "env \<Rightarrow> string \<Rightarrow> unit io" where
  "mkdir env p = fs_mutate env (Mkdir p) (mkdir_fs p)"

definition mkdir_exist_ok :: "env \<Rightarrow> string \<Rightarrow> unit io" where
  \<comment> \<open>\<open>Path.mkdir(exist_ok=True)\<close>: an OSError is swallowed when the path is a directory\<close>
  "mkdir_exist_ok env p =
     io_try (mkdir env p)
       (\<lambda>e w. if e = OSError \<and> map_of (files w) p = Some Dir then (Inr (), w) else (Inl e, w))"

definition copy_fs :: "string \<Rightarrow> string \<Rightarrow> fs \<Rightarrow> exn + fs" where
  \<comment> \<open>\<open>shutil.copy(src, dst)\<close>: into \<open>dst\<close> when that is a directory\<close>
  "copy_fs src dst t =
     (let target = (if map_of t dst = Some Dir then dst @ ''/'' @ basename src else dst)
      in case map_of t src of
           None \<Rightarrow> Inl OSError
         | Some Dir \<Rightarrow> Inl OSError
         | Some Unreadable \<Rightarrow> Inl OSError
         | Some n \<Rightarrow>
             if src = target \<or> map_of t target = Some Dir \<or> \<not> parent_ok t target
             then Inl OSError
             else Inr (AList.update target n t))"

definition shutil_copy :: "env \<Rightarrow> string \<Rightarrow> string \<Rightarrow> unit io" where
  "shutil_copy env src dst = fs_mutate env (Copy src dst) (copy_fs src dst)"

definition chmod_fs :: "string \<Rightarrow> fs \<Rightarrow> exn + fs" where
  "chmod_fs p t = (if map_of t p = None then Inl OSError else Inr t)"

definition chmod :: "env \<Rightarrow> string \<Rightarrow> unit io" where
  "chmod env p = fs_mutate env (Chmod p) (chmod_fs p)"

subsection \<open>System calls\<close>

definition os_kill :: "env \<Rightarrow> int \<Rightarrow> signal \<Rightarrow> unit io" where
  "os_kill env pid sg = (\<lambda>w.
     if pid < - pid_limit env \<or> pid_limit env \<le> pid then (Inl OverflowError, w)
     else let w1 = w\<lparr>events := events w @ [Kill pid sg]\<rparr> in
          if kill_ok env (length (events w)) pid sg then (Inr (), w1) else (Inl OSError, w1))"

definition subprocess_run :: "env \<Rightarrow> string list \<Rightarrow> (int \<times> string) io" where
  "subprocess_run env cmd = (\<lambda>w.
     case run env (length (events w)) cmd (files w) of
       (r, t) \<Rightarrow> (r, w\<lparr>files := t, events := events w @ [Run cmd], history := history w @ [t]\<rparr>))"

definition subprocess_popen :: "env \<Rightarrow> string list \<Rightarrow> int io" where
  "subprocess_popen env cmd = (\<lambda>w.
     (spawn env (length (events w)) cmd, w\<lparr>events := events w @ [Popen cmd]\<rparr>))"

definition now_strftime :: "env \<Rightarrow> string \<Rightarrow> string io" where
  "now_strftime env fmt = (\<lambda>w.
     (Inr (strftime env (length (events w)) fmt), w\<lparr>events := events w @ [Clock fmt]\<rparr>))"

subsection \<open>Utility functions\<close>

definition PID_DIR :: string where "PID_DIR = ''.pids''"
definition LOG_DIR :: string where "LOG_DIR = ''.logs''"
definition ACTIVE_DIR :: string where "ACTIVE_DIR = ''active''"
definition SCRIPT_DIR :: string where "SCRIPT_DIR = ''scripts''"


definition get_pid_file :: "string \<Rightarrow> string" where
  "get_pid_file service = PID_DIR @ ''/'' @ service @ ''.pid''"

definition get_log_file :: "string \<Rightarrow> string" where
  "get_log_file service = LOG_DIR @ ''/'' @ service @ ''.log''"

definition read_pid :: "env \<Rightarrow> string \<Rightarrow> int option io" where
  "read_pid env service =
     io_bind (path_exists (get_pid_file service)) (\<lambda>ex.
       if ex then
         io_try
           (io_bind (read_text (get_pid_file service)) (\<lambda>s.
            io_bind (io_lift (py_int env (strip s))) (\<lambda>n.
            io_return (Some n))))
           (\<lambda>e. if e = ValueError \<or> e = OSError then io_return None else io_raise e)
       else io_return None)"

definition write_pid :: "env \<Rightarrow> string \<Rightarrow> int \<Rightarrow> unit io" where
  "write_pid env service pid = write_text env (get_pid_file service) (py_str pid)"

definition remove_pid :: "env \<Rightarrow> string \<Rightarrow> unit io" where
  "remove_pid env service =
     io_bind (path_exists (get_pid_file service)) (\<lambda>ex.
       if ex then unlink env (get_pid_file service) else io_return ())"

definition is_running :: "env \<Rightarrow> int \<Rightarrow> bool io" where
  "is_running env pid =
     io_try (io_bind (os_kill env pid SIG0) (\<lambda>_. io_return True))
       (\<lambda>e. if e = OSError then io_return False else io_raise e)"

definition check_port :: "env \<Rightarrow> nat \<Rightarrow> bool io" where
  "check_port env port = (\<lambda>w.
     (Inr (port_open env (length (events w)) port), w\<lparr>events := events w @ [Connect port]\<rparr>))"

subsection \<open>Session management\<close>

definition get_git_branch :: "env \<Rightarrow> string option io" where
  "get_git_branch env =
     io_try
       (io_bind (subprocess_run env [''git'', ''rev-parse'', ''--abbrev-ref'', ''HEAD'']) (\<lambda>(rc, out).
          if rc = 0 then io_return (Some (strip out)) else io_return None))
       (\<lambda>e. io_return None)"

text \<open>
  The regular expression \<open>/([^/]+?)(?:\\.git)?$\<close>: after a slash, the shortest non-empty run
  without a slash that is followed by an optional \<open>.git\<close> and the end of the text (or its
  final newline); \<open>re.search\<close> takes the leftmost slash where that succeeds.
\<close>

definition at_end :: "string \<Rightarrow> bool" where
  "at_end x = (x = [] \<or> x = [nl])"

definition tail_ok :: "string \<Rightarrow> bool" where
  "tail_ok r = ((prefix ''.git'' r \<and> at_end (drop 4 r)) \<or> at_end r)"

fun lazy_group :: "string \<Rightarrow> string \<Rightarrow> string option" where
  "lazy_group acc [] = None"
| "lazy_group acc (c # cs) =
     (if c = CHR ''/'' then None
      else if tail_ok cs then Some (acc @ [c])
      else lazy_group (acc @ [c]) cs)"

fun re_search_repo :: "string \<Rightarrow> string option" where
  "re_search_repo [] = None"
| "re_search_repo (c # cs) =
     (if c = CHR ''/'' then
        (case lazy_group [] cs of Some g \<Rightarrow> Some g | None \<Rightarrow> re_search_repo cs)
      else re_search_repo cs)"

definition get_project_name :: "env \<Rightarrow> string io" where
  "get_project_name env =
     io_try
       (io_bind (subprocess_run env [''git'', ''remote'', ''get-url'', ''origin'']) (\<lambda>(rc, out).
          if rc = 0 then
            (case re_search_repo (strip out) of
               Some g \<Rightarrow> io_return g
             | None \<Rightarrow> io_return (project_dir_name env))
          else io_return (project_dir_name env)))
       (\<lambda>e. io_return (project_dir_name env))"

definition task_plan :: string where
  "task_plan = ACTIVE_DIR @ ''/task_plan.md''"

definition has_active_session :: "bool io" where
  "has_active_session =
     io_bind (path_exists task_plan) (\<lambda>ex.
       if \<not> ex then io_return False
       else io_bind (read_text task_plan) (\<lambda>content.
         io_return (sublist ''# Task:'' content \<and> \<not> sublist ''[Your task name]'' content)))"

text \<open>
  The regular expression \<open>^# Task:\\s*(.+)$\<close> with \<open>re.MULTILINE\<close>.  After the header,
  \<open>\\s*\<close> is greedy and also runs over newlines, and gives characters back until \<open>.+\<close>
  (which stops at a newline) has at least one character; \<open>re.search\<close> takes the first line
  start where the whole pattern matches.
\<close>

definition line_rest :: "string \<Rightarrow> string" where
  "line_rest s = takeWhile (\<lambda>c. c \<noteq> nl) s"

fun match_name :: "string \<Rightarrow> string option" where
  "match_name [] = None"
| "match_name (c # cs) =
     (if py_isspace c then
        (case match_name cs of
           Some g \<Rightarrow> Some g
         | None \<Rightarrow> if c \<noteq> nl then Some (line_rest (c # cs)) else None)
      else Some (line_rest (c # cs)))"

fun re_search_task :: "bool \<Rightarrow> string \<Rightarrow> string option" where
  "re_search_task at_line_start [] = None"
| "re_search_task at_line_start (c # cs) =
     (if at_line_start \<and> prefix ''# Task:'' (c # cs) then
        (case match_name (drop 7 (c # cs)) of
           Some g \<Rightarrow> Some g
         | None \<Rightarrow> re_search_task (c = nl) cs)
      else re_search_task (c = nl) cs)"

definition get_session_name :: "string option io" where
  "get_session_name =
     io_bind (path_exists task_plan) (\<lambda>ex.
       if ex then
         io_bind (read_text task_plan) (\<lambda>content.
           case re_search_task True content of
             Some g \<Rightarrow>
               (let name = strip g in
                if name \<noteq> [] \<and> name \<noteq> ''[Your task name]'' then io_return (Some name)
                else io_return None)
           | None \<Rightarrow> io_return None)
       else io_return None)"

definition replace_char :: "char \<Rightarrow> char \<Rightarrow> string \<Rightarrow> string" where
  "replace_char a b s = map (\<lambda>c. if c = a then b else c) s"

definition marker_text :: "string \<Rightarrow> string \<Rightarrow> string \<Rightarrow> string \<Rightarrow> string" where
  "marker_text session_name session_id timestamp branch = concat (map (\<lambda>l. l @ [nl])
     [''# Task: '' @ session_name,
      ''**Session ID:** '' @ session_id,
      ''**Started:** '' @ timestamp,
      ''**Status:** '' @ [CHR 0xF0, CHR 0x9F, CHR 0x94, CHR 0x84] @ '' In Progress'',
      [],
      ''## Goal'',
      ''Auto-created session for branch: '' @ branch,
      [],
      ''## Phases'',
      ''- [ ] Phase 1: Initial work'',
      [],
      ''## Files Created/Modified'',
      ''- [ ] (tracked automatically)'',
      [],
      ''## Live Error Log'',
      ''| Error | Attempt | Status | Solution | Knowledge Updated |'',
      ''|-------|---------|--------|----------|-------------------|'',
      [],
      ''## Next Steps'',
      ''1. Continue working on current task'',
      [],
      ''---'',
      ''*Auto-generated by Context Engine*''])"

definition init_script :: string where
  "init_script = SCRIPT_DIR @ ''/init-session.sh''"

definition create_auto_session :: "env \<Rightarrow> string io" where
  "create_auto_session env =
     io_bind (get_git_branch env) (\<lambda>b.
     let branch = (case b of None \<Rightarrow> ''main'' | Some s \<Rightarrow> if s = [] then ''main'' else s) in
     io_bind (get_project_name env) (\<lambda>project.
     let cleaned = replace_char (CHR ''_'') (CHR ''-'') (replace_char (CHR ''/'') (CHR ''-'') branch) in
     io_bind (if cleaned = ''main'' \<or> cleaned = ''master''
              then io_bind (now_strftime env ''%Y%m%d'') (\<lambda>date. io_return (project @ ''-'' @ date))
              else io_return cleaned) (\<lambda>session_name.
     io_bind (path_exists init_script) (\<lambda>has_init.
     io_bind (if has_init
              then io_bind (subprocess_run env [''bash'', init_script, session_name]) (\<lambda>_. io_return ())
              else io_return ()) (\<lambda>_.
     io_bind (path_exists task_plan) (\<lambda>ex.
     io_bind (if \<not> ex then io_return True
              else io_bind (read_text task_plan) (\<lambda>content.
                     io_return (sublist ''[Your task name]'' content))) (\<lambda>must_write.
     io_bind (if must_write then
                io_bind (now_strftime env ''%Y-%m-%d %H:%M:%S'') (\<lambda>timestamp.
                io_bind (now_strftime env ''%Y%m%d_%H%M%S'') (\<lambda>stamp.
                write_text env task_plan
                  (marker_text session_name (''sess_'' @ stamp) timestamp branch)))
              else io_return ()) (\<lambda>_.
     io_return session_name))))))))"

definition glob_md :: "string \<Rightarrow> fs \<Rightarrow> string list" where
  \<comment> \<open>\<open>dir.glob('*.md')\<close>: the names of the entries of the directory that end in \<open>.md\<close>\<close>
  "glob_md dir t =
     filter (\<lambda>name. CHR ''/'' \<notin> set name \<and> suffix ''.md'' name)
       (map (drop (length dir + 1)) (filter (prefix (dir @ ''/'')) (map fst t)))"

definition active_glob :: "string list io" where
  "active_glob = (\<lambda>w. (Inr (glob_md ACTIVE_DIR (files w)), w))"

fun copy_loop :: "env \<Rightarrow> string \<Rightarrow> string list \<Rightarrow> unit io" where
  "copy_loop env dest [] = io_return ()"
| "copy_loop env dest (f # fs) =
     io_bind (if \<not> prefix ''TEMPLATE'' f
              then shutil_copy env (ACTIVE_DIR @ ''/'' @ f) (dest @ ''/'' @ f)
              else io_return ()) (\<lambda>_.
     copy_loop env dest fs)"

fun unlink_loop :: "env \<Rightarrow> string list \<Rightarrow> unit io" where
  "unlink_loop env [] = io_return ()"
| "unlink_loop env (f # fs) =
     io_bind (if \<not> prefix ''TEMPLATE'' f
              then unlink env (ACTIVE_DIR @ ''/'' @ f)
              else io_return ()) (\<lambda>_.
     unlink_loop env fs)"

definition summarizer :: string where
  "summarizer = SCRIPT_DIR @ ''/session_summarizer.py''"

definition archive_script :: string where
  "archive_script = SCRIPT_DIR @ ''/archive-task.sh''"

definition archive_dest :: "string \<Rightarrow> string option \<Rightarrow> string" where
  \<comment> \<open>\<open>archive_dir / f"{date}_{session_name}"\<close>; the name \<open>None\<close> prints as \<open>None\<close>\<close>
  "archive_dest date session_name =
     ''archive/'' @ date @ ''_'' @ (case session_name of None \<Rightarrow> ''None'' | Some n \<Rightarrow> n)"

definition simple_archive :: "env \<Rightarrow> string option \<Rightarrow> bool io" where
  \<comment> \<open>the branch taken when the archive script fails\<close>
  "simple_archive env session_name =
     io_bind (mkdir_exist_ok env ''archive'') (\<lambda>_.
     io_bind (now_strftime env ''%Y-%m-%d'') (\<lambda>date.
     let dest = archive_dest date session_name in
     io_bind (path_exists dest) (\<lambda>ex.
       if \<not> ex then
         io_bind (mkdir env dest) (\<lambda>_.
         io_bind active_glob (\<lambda>names.
         io_bind (copy_loop env dest names) (\<lambda>_.
         io_bind active_glob (\<lambda>names'.
         io_bind (unlink_loop env names') (\<lambda>_.
         io_return True)))))
       else io_return False)))"

definition archive_session :: "env \<Rightarrow> bool io" where
  "archive_session env =
     io_bind has_active_session (\<lambda>act.
       if \<not> act then io_return False
       else
         io_bind get_session_name (\<lambda>session_name.
         io_bind (io_try
                    (io_bind (path_exists summarizer) (\<lambda>ex.
                       if ex then
                         io_bind (subprocess_run env
                                    [executable env, summarizer, ''--format'', ''yaml''])
                           (\<lambda>_. io_return ())
                       else io_return ()))
                    (\<lambda>e. io_return ())) (\<lambda>_.
         io_bind (path_exists archive_script) (\<lambda>ex.
           if ex then
             io_bind (subprocess_run env [''bash'', archive_script]) (\<lambda>(rc, out).
               if rc = 0 then io_return True
               else simple_archive env session_name)
           else io_return False))))"

subsection \<open>Service management\<close>

record service_config =
  cfg_name :: string
  cfg_command :: "string list"
  cfg_port :: "nat option"

definition SERVICES :: "env \<Rightarrow> (string \<times> service_config) list" where
  "SERVICES env =
     [(''web_ui'',
       \<lparr>cfg_name = ''Web UI'',
        cfg_command = [executable env, SCRIPT_DIR @ ''/web_ui/server.py''],
        cfg_port = Some 8765\<rparr>),
      (''file_watcher'',
       \<lparr>cfg_name = ''File Watcher'',
        cfg_command = [''bash'', SCRIPT_DIR @ ''/daemon-extract-learnings.sh'', ''--watch''],
        cfg_port = None\<rparr>)]"

fun split_on :: "char \<Rightarrow> string \<Rightarrow> string list" where
  \<comment> \<open>\<open>s.split(c)\<close>\<close>
  "split_on c [] = [[]]"
| "split_on c (x # xs) =
     (if x = c then [] # split_on c xs
      else (case split_on c xs of [] \<Rightarrow> [[x]] | l # ls \<Rightarrow> (x # l) # ls))"

fun kill_each :: "env \<Rightarrow> string list \<Rightarrow> unit io" where
  \<comment> \<open>the loop over the pids \<open>lsof\<close> printed; its bare \<open>except\<close> swallows everything\<close>
  "kill_each env [] = io_return ()"
| "kill_each env (l # ls) =
     io_bind (io_try (io_bind (io_lift (py_int env l)) (\<lambda>n. os_kill env n SIGTERM))
                (\<lambda>e. io_return ())) (\<lambda>_.
     kill_each env ls)"

definition free_port :: "env \<Rightarrow> nat \<Rightarrow> unit io" where
  "free_port env port =
     io_try
       (io_bind (subprocess_run env [''lsof'', ''-ti'', '':'' @ py_str (int port)]) (\<lambda>(rc, out).
          if strip out \<noteq> [] then
            io_bind (kill_each env (split_on nl (strip out))) (\<lambda>_. sleep 500)
          else io_return ()))
       (\<lambda>e. io_return ())"

definition start_service :: "env \<Rightarrow> string \<Rightarrow> service_config \<Rightarrow> bool io" where
  "start_service env service config =
     io_bind (read_pid env service) (\<lambda>existing_pid.
     io_bind (case existing_pid of
                None \<Rightarrow> io_return False
              | Some p \<Rightarrow> if p = 0 then io_return False else is_running env p) (\<lambda>already.
       if already then io_return True
       else
         io_bind (case cfg_port config of
                    None \<Rightarrow> io_return ()
                  | Some port \<Rightarrow>
                      if port = 0 then io_return ()
                      else io_bind (check_port env port) (\<lambda>busy.
                             if busy then free_port env port else io_return ())) (\<lambda>_.
         io_try
           (io_bind (open_truncate env (get_log_file service)) (\<lambda>_.
            io_bind (subprocess_popen env (cfg_command config)) (\<lambda>pid.
            io_bind (write_pid env service pid) (\<lambda>_.
            io_bind (sleep 500) (\<lambda>_.
            is_running env pid)))))
           (\<lambda>e. io_return False))))"

fun poll_loop :: "env \<Rightarrow> int \<Rightarrow> nat \<Rightarrow> bool io" where
  \<comment> \<open>the \<open>for ... else\<close> of \<open>stop_service\<close>: True when the loop ran out without a break\<close>
  "poll_loop env pid 0 = io_return True"
| "poll_loop env pid (Suc n) =
     io_bind (is_running env pid) (\<lambda>alive.
       if \<not> alive then io_return False
       else io_bind (sleep 100) (\<lambda>_. poll_loop env pid n))"

definition stop_service :: "env \<Rightarrow> string \<Rightarrow> service_config \<Rightarrow> bool io" where
  "stop_service env service config =
     io_bind (read_pid env service) (\<lambda>pid_opt.
     case pid_opt of
       None \<Rightarrow> io_bind (remove_pid env service) (\<lambda>_. io_return True)
     | Some pid \<Rightarrow>
         io_bind (if pid = 0 then io_return False else is_running env pid) (\<lambda>alive.
           if \<not> alive then io_bind (remove_pid env service) (\<lambda>_. io_return True)
           else
             io_try
               (io_bind (os_kill env pid SIGTERM) (\<lambda>_.
                io_bind (poll_loop env pid 10) (\<lambda>exhausted.
                io_bind (if exhausted then os_kill env pid SIGKILL else io_return ()) (\<lambda>_.
                io_bind (remove_pid env service) (\<lambda>_.
                io_return True)))))
               (\<lambda>e. if e = OSError
                    then io_bind (remove_pid env service) (\<lambda>_. io_return False)
                    else io_raise e)))"

subsection \<open>Hooks setup\<close>

definition post_hook :: string where
  "post_hook = SCRIPT_DIR @ ''/hooks_PostToolUse_ErrorCapture.py''"


subsection \<open>Main commands\<close>



definition web_port :: nat where
  "web_port = 8765"




fun status_services :: "env \<Rightarrow> (string \<times> service_config) list \<Rightarrow> bool \<Rightarrow> bool io" where
  \<comment> \<open>the loop of \<open>status\<close> over the services; the flag is \<open>any_running\<close>\<close>
  "status_services env [] any_running = io_return any_running"
| "status_services env ((service, config) # rest) any_running =
     io_bind (read_pid env service) (\<lambda>pid_opt.
     io_bind (case pid_opt of
                None \<Rightarrow> io_return False
              | Some p \<Rightarrow> if p = 0 then io_return False else is_running env p) (\<lambda>running.
     status_services env rest (if running then True else any_running)))"

fun knowledge_stats :: "string list \<Rightarrow> nat list io" where
  \<comment> \<open>the line counts \<open>status\<close> prints for the knowledge files that exist\<close>
  "knowledge_stats [] = io_return []"
| "knowledge_stats (f # fs) =
     io_bind (path_exists (''knowledge/'' @ f)) (\<lambda>ex.
       if ex then
         io_bind (read_text (''knowledge/'' @ f)) (\<lambda>content.
         io_bind (knowledge_stats fs) (\<lambda>rest.
         io_return (length (split_on nl content) # rest)))
       else knowledge_stats fs)"

definition status :: "env \<Rightarrow> unit io" where
  "status env =
     io_bind has_active_session (\<lambda>act.
     io_bind (if act then io_bind get_session_name (\<lambda>_. io_return ()) else io_return ()) (\<lambda>_.
     io_bind (status_services env (SERVICES env) False) (\<lambda>any_running.
     io_bind (if any_running then io_bind (check_port env web_port) (\<lambda>_. io_return ())
              else io_return ()) (\<lambda>_.
     io_bind (knowledge_stats [''patterns.md'', ''failures.md'', ''decisions.md'', ''gotchas.md''])
       (\<lambda>_. io_return ())))))"



section \<open>Basic facts\<close>

lemma io_bind_return [simp]: "io_bind (io_return x) f = f x"
  by (simp add: io_bind_def io_return_def)

lemma io_bind_apply:
  "io_bind m f w = (case m w of (Inl e, w') \<Rightarrow> (Inl e, w') | (Inr x, w') \<Rightarrow> f x w')"
  by (simp add: io_bind_def)

lemma io_try_apply:
  "io_try m h w = (case m w of (Inl e, w') \<Rightarrow> h e w' | (Inr x, w') \<Rightarrow> (Inr x, w'))"
  by (simp add: io_try_def)

subsection \<open>Stripping whitespace twice\<close>

lemma rstrip_prefix: "\<exists>zs. xs = rev (dropWhile P (rev xs)) @ zs"
proof -
  have "rev xs = takeWhile P (rev xs) @ dropWhile P (rev xs)" by simp
  then have "xs = rev (dropWhile P (rev xs)) @ rev (takeWhile P (rev xs))"
    by (metis rev_append rev_rev_ident)
  then show ?thesis by blast
qed

lemma dropWhile_strip_fixed: "dropWhile py_isspace (strip s) = strip s"
proof (cases "strip s")
  case Nil
  then show ?thesis by simp
next
  case (Cons c cs)
  obtain zs where zs: "dropWhile py_isspace s = strip s @ zs"
    using rstrip_prefix[of "dropWhile py_isspace s" py_isspace] by (auto simp: strip_def)
  then have "dropWhile py_isspace s = c # cs @ zs" using Cons by simp
  then have "\<not> py_isspace c"
    using hd_dropWhile[of py_isspace s] by auto
  then show ?thesis using Cons by simp
qed

lemma strip_idem: "strip (strip s) = strip s"
proof -
  have "dropWhile py_isspace (rev (strip s)) = rev (strip s)"
    unfolding strip_def by (simp add: dropWhile_idem)
  then show ?thesis
    using dropWhile_strip_fixed[of s] by (simp add: strip_def[of "strip s"])
qed

lemma py_int_strip: "py_int env (strip s) = py_int env s"
  by (simp add: py_int_def strip_idem)

subsection \<open>The pid registry\<close>

lemma read_pid_eq:
  "read_pid env service w =
     (Inr (case map_of (files w) (get_pid_file service) of
             Some (Text s) \<Rightarrow> (case py_int env s of Inr n \<Rightarrow> Some n | Inl e \<Rightarrow> None)
           | _ \<Rightarrow> None), w)"
proof (cases "map_of (files w) (get_pid_file service)")
  case None
  then show ?thesis
    by (simp add: read_pid_def io_bind_apply path_exists_def io_return_def)
next
  case (Some n)
  show ?thesis
  proof (cases n)
    case (Text s)
    have e: "py_int env s = Inl ValueError \<or> (\<exists>k. py_int env s = Inr k)"
      by (simp add: py_int_def Let_def)
    then show ?thesis
      using Some Text
      by (auto simp: read_pid_def io_bind_apply io_try_apply path_exists_def read_text_def
          io_lift_def io_return_def py_int_strip)
  qed (use Some in \<open>simp_all add: read_pid_def io_bind_apply io_try_apply path_exists_def
          read_text_def io_return_def\<close>)
qed

lemma is_running_apply:
  "is_running env pid w =
     (if pid < - pid_limit env \<or> pid_limit env \<le> pid then (Inl OverflowError, w)
      else (Inr (kill_ok env (length (events w)) pid SIG0),
            w\<lparr>events := events w @ [Kill pid SIG0]\<rparr>))"
  by (simp add: is_running_def io_try_apply io_bind_apply os_kill_def io_return_def io_raise_def
      Let_def)


lemma length_concat_replicate2: "length (concat (replicate n [a, b])) = 2 * n"
  by (induction n) simp_all

lemma poll_loop_alive:
  assumes "\<forall>k. kill_ok env k pid SIG0" "- pid_limit env \<le> pid" "pid < pid_limit env"
  shows "poll_loop env pid n w =
    (Inr True, w\<lparr>events := events w @ concat (replicate n [Kill pid SIG0, Sleep 100])\<rparr>)"
  using assms
  by (induction n arbitrary: w)
     (simp_all add: io_return_def io_bind_apply is_running_apply sleep_def log_event_def)

lemma unlink_text:
  "map_of (files w) p = Some (Text s) \<Longrightarrow> \<not> fs_fault env (length (events w)) \<Longrightarrow>
   unlink env p w = (Inr (), w\<lparr>events := events w @ [FsOp (Unlink p)],
                               files := AList.delete p (files w),
                               history := history w @ [AList.delete p (files w)]\<rparr>)"
  by (simp add: unlink_def fs_mutate_def unlink_fs_def Let_def)

subsection \<open>The summary step of archiving\<close>

lemma summary_step:
  assumes "\<forall>k cmd t. snd (run env k cmd t) = t"
  shows "\<exists>es hs. io_try
            (io_bind (path_exists summarizer) (\<lambda>ex.
               if ex then
                 io_bind (subprocess_run env [executable env, summarizer, ''--format'', ''yaml''])
                   (\<lambda>_. io_return ())
               else io_return ()))
            (\<lambda>e. io_return ()) w
         = (Inr (), w\<lparr>events := events w @ es, history := history w @ hs\<rparr>)
         \<and> set es \<subseteq> {Run [executable env, summarizer, ''--format'', ''yaml'']}
         \<and> set hs \<subseteq> {files w}"
proof (cases "map_of (files w) summarizer = None")
  case True
  then have "io_try
            (io_bind (path_exists summarizer) (\<lambda>ex.
               if ex then
                 io_bind (subprocess_run env [executable env, summarizer, ''--format'', ''yaml''])
                   (\<lambda>_. io_return ())
               else io_return ()))
            (\<lambda>e. io_return ()) w = (Inr (), w\<lparr>events := events w @ [], history := history w @ []\<rparr>)"
    by (simp add: io_try_apply io_bind_apply path_exists_def io_return_def)
  then show ?thesis by (intro exI[of _ "[]"]) simp
next
  case False
  let ?cmd = "[executable env, summarizer, ''--format'', ''yaml'']"
  obtain r t where rn: "run env (length (events w)) ?cmd (files w) = (r, t)"
    by (cases "run env (length (events w)) ?cmd (files w)")
  have t: "t = files w"
    using assms[rule_format, of "length (events w)" ?cmd "files w"] rn by simp
  have "io_try
            (io_bind (path_exists summarizer) (\<lambda>ex.
               if ex then
                 io_bind (subprocess_run env ?cmd) (\<lambda>_. io_return ())
               else io_return ()))
            (\<lambda>e. io_return ()) w
        = (Inr (), w\<lparr>events := events w @ [Run ?cmd], history := history w @ [files w]\<rparr>)"
    using False rn t
    by (cases r) (simp_all add: io_try_apply io_bind_apply path_exists_def io_return_def
        subprocess_run_def)
  then show ?thesis
    by (intro exI[of _ "[Run ?cmd]"] exI[of _ "[files w]"]) simp
qed


section \<open>What a computation logs, keeps and ensures\<close>

text \<open>
  Three predicates on computations.  \<open>emits P m\<close>: every event \<open>m\<close> logs satisfies \<open>P\<close>.
  \<open>keeps_files m\<close>: \<open>m\<close> leaves the file tree and its history as they are.
  \<open>ensures Q m\<close>: whenever \<open>m\<close> returns a value, \<open>Q\<close> holds of the world it leaves.
\<close>

definition emits :: "(event \<Rightarrow> bool) \<Rightarrow> 'a io \<Rightarrow> bool" where
  "emits P m = (\<forall>w. \<exists>es. events (snd (m w)) = events w @ es \<and> list_all P es)"

definition keeps_files :: "'a io \<Rightarrow> bool" where
  "keeps_files m = (\<forall>w. files (snd (m w)) = files w \<and> history (snd (m w)) = history w)"

named_theorems emits_intros
named_theorems keeps_intros

lemma emits_return [emits_intros]: "emits P (io_return x)"
  by (simp add: emits_def io_return_def)

lemma emits_raise [emits_intros]: "emits P (io_raise e)"
  by (simp add: emits_def io_raise_def)

lemma emits_lift [emits_intros]: "emits P (io_lift r)"
  by (simp add: emits_def io_lift_def)

lemma emits_bind [emits_intros]:
  assumes "emits P m" "\<And>x. emits P (f x)"
  shows "emits P (io_bind m f)"
  unfolding emits_def
proof
  fix w
  obtain r w1 where m: "m w = (r, w1)" by (cases "m w")
  from assms(1) obtain es where es: "events w1 = events w @ es" "list_all P es"
    unfolding emits_def using m by (metis snd_conv)
  show "\<exists>es. events (snd (io_bind m f w)) = events w @ es \<and> list_all P es"
  proof (cases r)
    case (Inl e)
    then show ?thesis using m es by (auto simp: io_bind_apply)
  next
    case (Inr x)
    from assms(2)[of x] obtain es' where "events (snd (f x w1)) = events w1 @ es'" "list_all P es'"
      unfolding emits_def by blast
    then show ?thesis using m es Inr by (auto simp: io_bind_apply)
  qed
qed

lemma emits_try [emits_intros]:
  assumes "emits P m" "\<And>e. emits P (h e)"
  shows "emits P (io_try m h)"
  unfolding emits_def
proof
  fix w
  obtain r w1 where m: "m w = (r, w1)" by (cases "m w")
  from assms(1) obtain es where es: "events w1 = events w @ es" "list_all P es"
    unfolding emits_def using m by (metis snd_conv)
  show "\<exists>es. events (snd (io_try m h w)) = events w @ es \<and> list_all P es"
  proof (cases r)
    case (Inr x)
    then show ?thesis using m es by (auto simp: io_try_apply)
  next
    case (Inl e)
    from assms(2)[of e] obtain es' where "events (snd (h e w1)) = events w1 @ es'" "list_all P es'"
      unfolding emits_def by blast
    then show ?thesis using m es Inl by (auto simp: io_try_apply)
  qed
qed

lemma emits_if [emits_intros]:
  "emits P a \<Longrightarrow> emits P b \<Longrightarrow> emits P (if c then a else b)"
  by simp

lemma emits_case_option [emits_intros]:
  "emits P a \<Longrightarrow> (\<And>x. emits P (b x)) \<Longrightarrow> emits P (case v of None \<Rightarrow> a | Some x \<Rightarrow> b x)"
  by (cases v) simp_all

lemma emits_case_prod [emits_intros]:
  "(\<And>a b. emits P (f a b)) \<Longrightarrow> emits P (case p of (a, b) \<Rightarrow> f a b)"
  by (cases p) simp

lemma emits_let [emits_intros]: "emits P (f v) \<Longrightarrow> emits P (Let v f)"
  by simp

lemma emits_log_event [emits_intros]: "P e \<Longrightarrow> emits P (log_event e)"
  by (simp add: emits_def log_event_def)

lemma emits_sleep [emits_intros]: "P (Sleep ms) \<Longrightarrow> emits P (sleep ms)"
  by (simp add: sleep_def emits_log_event)

lemma emits_path_exists [emits_intros]: "emits P (path_exists p)"
  by (simp add: emits_def path_exists_def)

lemma emits_read_text [emits_intros]: "emits P (read_text p)"
  by (simp add: emits_def read_text_def split: option.splits node.splits)

lemma emits_fs_mutate: "P (FsOp op) \<Longrightarrow> emits P (fs_mutate env op f)"
  by (simp add: emits_def fs_mutate_def Let_def split: sum.splits)

lemma emits_os_kill [emits_intros]: "P (Kill pid sg) \<Longrightarrow> emits P (os_kill env pid sg)"
  by (simp add: emits_def os_kill_def Let_def)

lemma emits_subprocess_run [emits_intros]: "P (Run cmd) \<Longrightarrow> emits P (subprocess_run env cmd)"
  by (simp add: emits_def subprocess_run_def split: prod.splits)

lemma emits_subprocess_popen [emits_intros]:
  "P (Popen cmd) \<Longrightarrow> emits P (subprocess_popen env cmd)"
  by (simp add: emits_def subprocess_popen_def)

lemma emits_now_strftime [emits_intros]: "P (Clock fmt) \<Longrightarrow> emits P (now_strftime env fmt)"
  by (simp add: emits_def now_strftime_def)

lemma emits_check_port [emits_intros]: "P (Connect port) \<Longrightarrow> emits P (check_port env port)"
  by (simp add: emits_def check_port_def)

lemma emits_read_pid [emits_intros]: "emits P (read_pid env service)"
  by (simp add: emits_def read_pid_eq)

lemma emits_is_running [emits_intros]: "P (Kill pid SIG0) \<Longrightarrow> emits P (is_running env pid)"
  by (simp add: emits_def is_running_apply)

lemma emits_has_active_session [emits_intros]: "emits P has_active_session"
  unfolding has_active_session_def by (intro emits_intros)

lemma emits_get_session_name [emits_intros]: "emits P get_session_name"
  unfolding get_session_name_def by (intro emits_intros)

lemma emits_knowledge_stats [emits_intros]: "emits P (knowledge_stats fs)"
proof (induction fs)
  case Nil
  then show ?case by (simp add: emits_return)
next
  case (Cons f fs)
  show ?case unfolding knowledge_stats.simps
    by (intro emits_intros Cons)
qed

lemma emits_status_services:
  assumes "\<And>pid. P (Kill pid SIG0)"
  shows "emits P (status_services env svcs b)"
proof (induction svcs arbitrary: b)
  case Nil
  then show ?case by (simp add: emits_return)
next
  case (Cons sc svcs)
  obtain s c where sc: "sc = (s, c)" by (cases sc)
  show ?case unfolding sc status_services.simps
    by (intro emits_intros Cons assms)
qed

lemma emits_status:
  assumes "\<And>pid. P (Kill pid SIG0)" "\<And>port. P (Connect port)"
  shows "emits P (status env)"
  unfolding status_def by (intro emits_intros emits_status_services assms)


lemma keeps_return [keeps_intros]: "keeps_files (io_return x)"
  by (simp add: keeps_files_def io_return_def)

lemma keeps_raise [keeps_intros]: "keeps_files (io_raise e)"
  by (simp add: keeps_files_def io_raise_def)

lemma keeps_lift [keeps_intros]: "keeps_files (io_lift r)"
  by (simp add: keeps_files_def io_lift_def)

lemma keeps_bind [keeps_intros]:
  assumes "keeps_files m" "\<And>x. keeps_files (f x)"
  shows "keeps_files (io_bind m f)"
  unfolding keeps_files_def
proof
  fix w
  obtain r w1 where m: "m w = (r, w1)" by (cases "m w")
  have w1: "files w1 = files w" "history w1 = history w"
    using assms(1) m unfolding keeps_files_def by (metis snd_conv)+
  show "files (snd (io_bind m f w)) = files w \<and> history (snd (io_bind m f w)) = history w"
  proof (cases r)
    case (Inl e)
    then show ?thesis using m w1 by (simp add: io_bind_apply)
  next
    case (Inr x)
    then show ?thesis using m w1 assms(2)[of x] by (simp add: io_bind_apply keeps_files_def)
  qed
qed

lemma keeps_try [keeps_intros]:
  assumes "keeps_files m" "\<And>e. keeps_files (h e)"
  shows "keeps_files (io_try m h)"
  unfolding keeps_files_def
proof
  fix w
  obtain r w1 where m: "m w = (r, w1)" by (cases "m w")
  have w1: "files w1 = files w" "history w1 = history w"
    using assms(1) m unfolding keeps_files_def by (metis snd_conv)+
  show "files (snd (io_try m h w)) = files w \<and> history (snd (io_try m h w)) = history w"
  proof (cases r)
    case (Inr x)
    then show ?thesis using m w1 by (simp add: io_try_apply)
  next
    case (Inl e)
    then show ?thesis using m w1 assms(2)[of e] by (simp add: io_try_apply keeps_files_def)
  qed
qed

lemma keeps_if [keeps_intros]:
  "keeps_files a \<Longrightarrow> keeps_files b \<Longrightarrow> keeps_files (if c then a else b)"
  by simp

lemma keeps_case_option [keeps_intros]:
  "keeps_files a \<Longrightarrow> (\<And>x. keeps_files (b x)) \<Longrightarrow>
   keeps_files (case v of None \<Rightarrow> a | Some x \<Rightarrow> b x)"
  by (cases v) simp_all

lemma keeps_case_prod [keeps_intros]:
  "(\<And>a b. keeps_files (f a b)) \<Longrightarrow> keeps_files (case p of (a, b) \<Rightarrow> f a b)"
  by (cases p) simp

lemma keeps_let [keeps_intros]: "keeps_files (f v) \<Longrightarrow> keeps_files (Let v f)"
  by simp

lemma keeps_log_event [keeps_intros]: "keeps_files (log_event e)"
  by (simp add: keeps_files_def log_event_def)

lemma keeps_sleep [keeps_intros]: "keeps_files (sleep ms)"
  by (simp add: sleep_def keeps_log_event)

lemma keeps_path_exists [keeps_intros]: "keeps_files (path_exists p)"
  by (simp add: keeps_files_def path_exists_def)

lemma keeps_read_text [keeps_intros]: "keeps_files (read_text p)"
  by (simp add: keeps_files_def read_text_def split: option.splits node.splits)

lemma keeps_os_kill [keeps_intros]: "keeps_files (os_kill env pid sg)"
  by (simp add: keeps_files_def os_kill_def Let_def)

lemma keeps_check_port [keeps_intros]: "keeps_files (check_port env port)"
  by (simp add: keeps_files_def check_port_def)

lemma keeps_read_pid [keeps_intros]: "keeps_files (read_pid env service)"
  by (simp add: keeps_files_def read_pid_eq)

lemma keeps_is_running [keeps_intros]: "keeps_files (is_running env pid)"
  by (simp add: keeps_files_def is_running_apply)

lemma keeps_has_active_session [keeps_intros]: "keeps_files has_active_session"
  unfolding has_active_session_def by (intro keeps_intros)

lemma keeps_get_session_name [keeps_intros]: "keeps_files get_session_name"
  unfolding get_session_name_def by (intro keeps_intros)

lemma keeps_knowledge_stats [keeps_intros]: "keeps_files (knowledge_stats fs)"
proof (induction fs)
  case Nil
  then show ?case by (simp add: keeps_return)
next
  case (Cons f fs)
  show ?case unfolding knowledge_stats.simps
    by (intro keeps_intros Cons)
qed

lemma keeps_status_services: "keeps_files (status_services env svcs b)"
proof (induction svcs arbitrary: b)
  case Nil
  then show ?case by (simp add: keeps_return)
next
  case (Cons sc svcs)
  obtain s c where sc: "sc = (s, c)" by (cases sc)
  show ?case unfolding sc status_services.simps
    by (intro keeps_intros Cons)
qed

lemma keeps_status: "keeps_files (status env)"
  unfolding status_def by (intro keeps_intros keeps_status_services)

definition ensures :: "(world \<Rightarrow> bool) \<Rightarrow> 'a io \<Rightarrow> bool" where
  "ensures Q m = (\<forall>w x w'. m w = (Inr x, w') \<longrightarrow> Q w')"

definition preserves :: "(world \<Rightarrow> bool) \<Rightarrow> 'a io \<Rightarrow> bool" where
  "preserves Q m = (\<forall>w. Q w \<longrightarrow> Q (snd (m w)))"

lemma ensures_raise: "ensures Q (io_raise e)"
  by (simp add: ensures_def io_raise_def)

lemma ensures_bind_last: "(\<And>x. ensures Q (f x)) \<Longrightarrow> ensures Q (io_bind m f)"
  unfolding ensures_def io_bind_apply
  by (auto split: prod.splits sum.splits)

lemma ensures_then: "ensures Q m \<Longrightarrow> (\<And>x. preserves Q (f x)) \<Longrightarrow> ensures Q (io_bind m f)"
  unfolding ensures_def preserves_def io_bind_apply
  by (auto split: prod.splits sum.splits) (metis snd_conv)

lemma ensures_try: "ensures Q m \<Longrightarrow> (\<And>e. ensures Q (h e)) \<Longrightarrow> ensures Q (io_try m h)"
  unfolding ensures_def io_try_apply
  by (auto split: prod.splits sum.splits)

lemma ensures_if: "ensures Q a \<Longrightarrow> ensures Q b \<Longrightarrow> ensures Q (if c then a else b)"
  by simp

lemma ensures_case_option:
  "ensures Q a \<Longrightarrow> (\<And>x. ensures Q (b x)) \<Longrightarrow> ensures Q (case v of None \<Rightarrow> a | Some x \<Rightarrow> b x)"
  by (cases v) simp_all

lemma preserves_return: "preserves Q (io_return x)"
  by (simp add: preserves_def io_return_def)

lemma remove_pid_ensures:
  "ensures (\<lambda>w. map_of (files w) (get_pid_file service) = None) (remove_pid env service)"
  unfolding ensures_def remove_pid_def io_bind_apply path_exists_def unlink_def fs_mutate_def
    unlink_fs_def io_return_def
  by (auto simp: Let_def AList.delete_conv' split: if_splits option.splits node.splits)

lemma stop_service_removes:
  "ensures (\<lambda>w. map_of (files w) (get_pid_file service) = None) (stop_service env service config)"
  unfolding stop_service_def
  by (intro ensures_bind_last ensures_case_option ensures_if ensures_try ensures_raise
      ensures_then[OF remove_pid_ensures] preserves_return)

definition not_unlink :: "event \<Rightarrow> bool" where
  "not_unlink e = (case e of FsOp (Unlink p) \<Rightarrow> False | _ \<Rightarrow> True)"

lemma emits_kill_each: "(\<And>pid sg. P (Kill pid sg)) \<Longrightarrow> emits P (kill_each env ls)"
proof (induction ls)
  case Nil
  then show ?case by (simp add: emits_return)
next
  case (Cons l ls)
  show ?case unfolding kill_each.simps
    by (intro emits_intros Cons)
qed

lemma start_service_never_unlinks: "emits not_unlink (start_service env service config)"
  unfolding start_service_def free_port_def write_pid_def write_text_def open_truncate_def
  by (intro emits_intros emits_kill_each emits_fs_mutate) (simp_all add: not_unlink_def)

section \<open>Worlds and environments to run the program on\<close>

definition demo_env :: env where
  "demo_env = \<lparr>kill_ok = (\<lambda>n pid sg. sg \<noteq> SIGKILL), pid_limit = 2147483648,
     fs_fault = (\<lambda>n. False), port_open = (\<lambda>n port. False), spawn = (\<lambda>n cmd. Inr 4242),
     run = (\<lambda>n cmd t. (Inr (1, []), t)), strftime = (\<lambda>n fmt. ''2024-01-02''),
     int_max_str_digits = 4300, project_dir_name = ''proj'', executable = ''python3'',
     post_hook_content = ''hook''\<rparr>"

definition demo_config :: service_config where
  "demo_config = \<lparr>cfg_name = ''Web UI'', cfg_command = [''python3'', ''scripts/web_ui/server.py''],
     cfg_port = Some 8765\<rparr>"

definition pid_world :: "string \<Rightarrow> world" where
  \<comment> \<open>a tree whose only file is the pid record of \<open>web_ui\<close>, with the given text\<close>
  "pid_world s = \<lparr>files = [(''.pids'', Dir), (''.pids/web_ui.pid'', Text s)], events = [],
     history = []\<rparr>"

definition dead_env :: env where
  \<comment> \<open>as \<open>demo_env\<close>, but every \<open>os.kill\<close> raises OSError: no process is alive\<close>
  "dead_env = demo_env\<lparr>kill_ok := (\<lambda>n pid sg. False)\<rparr>"

definition dirs_world :: world where
  \<comment> \<open>the tree \<open>ensure_dirs\<close> leaves in an empty MEMORY\_DIR\<close>
  "dirs_world = \<lparr>files = [(''.pids'', Dir), (''.logs'', Dir), (''active'', Dir)], events = [],
     history = []\<rparr>"

definition marker_world :: "string \<Rightarrow> world" where
  \<comment> \<open>a tree whose only file is the session marker, with the given text\<close>
  "marker_world content = \<lparr>files = [(''active'', Dir), (''active/task_plan.md'', Text content)],
     events = [], history = []\<rparr>"

lemma py_int_4242: "py_int env ''4242'' = Inr 4242"
  by (simp add: py_int_def strip_def py_isspace_def is_digit_def digits_value_def digit_val_def
      Let_def)

lemma py_str_4242: "py_str 4242 = ''4242''"
  by (simp add: py_str_def nat_digits.simps)

lemma parent_eval:
  "parent ''.logs/web_ui.log'' = Some ''.logs''"
  "parent ''.pids/web_ui.pid'' = Some ''.pids''"
  by (simp_all add: parent_def)

lemma start_service_dead_run:
  "start_service dead_env ''web_ui'' demo_config dirs_world =
     (Inr False,
      \<lparr>files = [(''.pids'', Dir), (''.logs'', Dir), (''active'', Dir),
                (''.logs/web_ui.log'', Text []), (''.pids/web_ui.pid'', Text ''4242'')],
       events = [Connect 8765, FsOp (Truncate ''.logs/web_ui.log''),
                 Popen [''python3'', ''scripts/web_ui/server.py''],
                 FsOp (WriteText ''.pids/web_ui.pid'' ''4242''), Sleep 500, Kill 4242 SIG0],
       history = [[(''.pids'', Dir), (''.logs'', Dir), (''active'', Dir),
                   (''.logs/web_ui.log'', Text [])],
                  [(''.pids'', Dir), (''.logs'', Dir), (''active'', Dir),
                   (''.logs/web_ui.log'', Text []), (''.pids/web_ui.pid'', Text ''4242'')]]\<rparr>)"
  by (simp add: start_service_def read_pid_eq io_bind_apply io_try_apply io_return_def
      dirs_world_def dead_env_def demo_env_def demo_config_def get_pid_file_def get_log_file_def
      PID_DIR_def LOG_DIR_def check_port_def open_truncate_def fs_mutate_def write_fs_def
      parent_ok_def parent_eval subprocess_popen_def write_pid_def write_text_def py_str_4242
      sleep_def log_event_def is_running_apply Let_def)

lemmas run_defs = io_bind_apply io_try_apply io_return_def io_raise_def io_lift_def
  log_event_def sleep_def path_exists_def read_text_def fs_mutate_def write_fs_def
  write_text_def open_truncate_def unlink_fs_def unlink_def mkdir_fs_def mkdir_def
  mkdir_exist_ok_def chmod_fs_def chmod_def os_kill_def subprocess_run_def
  subprocess_popen_def now_strftime_def check_port_def parent_ok_def parent_def Let_def
  PID_DIR_def LOG_DIR_def ACTIVE_DIR_def SCRIPT_DIR_def get_pid_file_def get_log_file_def
  task_plan_def post_hook_def

section \<open>The claims\<close>

subsection \<open>C1: creating a session when one is active\<close>

text \<open>
  To state what \<open>create_auto_session\<close> does, its body is cut into three parts, and a
  predicate says that a computation leaves one file alone.
\<close>

definition not_fs_op :: "event \<Rightarrow> bool" where
  "not_fs_op e = (case e of FsOp op \<Rightarrow> False | _ \<Rightarrow> True)"

definition derive_session_name :: "env \<Rightarrow> (string \<times> string) io" where
  \<comment> \<open>the first part of \<open>create_auto_session\<close>: the branch and the session name made of it\<close>
  "derive_session_name env =
     io_bind (get_git_branch env) (\<lambda>b.
     let branch = (case b of None \<Rightarrow> ''main'' | Some s \<Rightarrow> if s = [] then ''main'' else s) in
     io_bind (get_project_name env) (\<lambda>project.
     let cleaned = replace_char (CHR ''_'') (CHR ''-'') (replace_char (CHR ''/'') (CHR ''-'') branch) in
     io_bind (if cleaned = ''main'' \<or> cleaned = ''master''
              then io_bind (now_strftime env ''%Y%m%d'') (\<lambda>date. io_return (project @ ''-'' @ date))
              else io_return cleaned) (\<lambda>session_name.
     io_return (branch, session_name))))"

definition run_init_script :: "env \<Rightarrow> string \<Rightarrow> unit io" where
  \<comment> \<open>its second part: the call of the init script, when there is one\<close>
  "run_init_script env session_name =
     io_bind (path_exists init_script) (\<lambda>has_init.
       if has_init
       then io_bind (subprocess_run env [''bash'', init_script, session_name]) (\<lambda>_. io_return ())
       else io_return ())"

definition write_marker_if_missing :: "env \<Rightarrow> string \<Rightarrow> string \<Rightarrow> string io" where
  \<comment> \<open>its last part: the marker is written when it is missing or holds the placeholder\<close>
  "write_marker_if_missing env branch session_name =
     io_bind (path_exists task_plan) (\<lambda>ex.
     io_bind (if \<not> ex then io_return True
              else io_bind (read_text task_plan) (\<lambda>content.
                     io_return (sublist ''[Your task name]'' content))) (\<lambda>must_write.
     io_bind (if must_write then
                io_bind (now_strftime env ''%Y-%m-%d %H:%M:%S'') (\<lambda>timestamp.
                io_bind (now_strftime env ''%Y%m%d_%H%M%S'') (\<lambda>stamp.
                write_text env task_plan
                  (marker_text session_name (''sess_'' @ stamp) timestamp branch)))
              else io_return ()) (\<lambda>_.
     io_return session_name)))"

lemma io_bind_assoc: "io_bind (io_bind m f) g = io_bind m (\<lambda>x. io_bind (f x) g)"
  by (rule ext) (simp add: io_bind_apply split: prod.splits sum.splits)

lemma create_auto_session_parts:
  "create_auto_session env =
     io_bind (derive_session_name env) (\<lambda>(branch, session_name).
     io_bind (run_init_script env session_name) (\<lambda>_.
     write_marker_if_missing env branch session_name))"
  unfolding create_auto_session_def derive_session_name_def run_init_script_def
    write_marker_if_missing_def
  by (simp add: io_bind_assoc Let_def)

definition steady :: "string \<Rightarrow> node \<Rightarrow> (event \<Rightarrow> bool) \<Rightarrow> 'a io \<Rightarrow> bool" where
  \<comment> \<open>started where the path holds the node, the computation ends where it still does, and
      logs only events that satisfy the predicate\<close>
  "steady p n P m = (\<forall>w. map_of (files w) p = Some n \<longrightarrow>
      map_of (files (snd (m w))) p = Some n \<and>
      (\<exists>es. events (snd (m w)) = events w @ es \<and> list_all P es))"

lemma steady_quiet: "keeps_files m \<Longrightarrow> emits P m \<Longrightarrow> steady p n P m"
  unfolding steady_def keeps_files_def emits_def by simp

lemma steady_return: "steady p n P (io_return x)"
  by (simp add: steady_def io_return_def)

lemma steady_bind:
  assumes "steady p n P m" "\<And>x. steady p n P (f x)"
  shows "steady p n P (io_bind m f)"
  unfolding steady_def
proof (intro allI impI)
  fix w :: world
  assume q: "map_of (files w) p = Some n"
  obtain r w1 where m: "m w = (r, w1)" by (cases "m w")
  have "map_of (files (snd (m w))) p = Some n \<and>
      (\<exists>es. events (snd (m w)) = events w @ es \<and> list_all P es)"
    using assms(1) q unfolding steady_def by blast
  then obtain es where w1: "map_of (files w1) p = Some n"
      "events w1 = events w @ es" "list_all P es"
    unfolding m by auto
  show "map_of (files (snd (io_bind m f w))) p = Some n \<and>
      (\<exists>es. events (snd (io_bind m f w)) = events w @ es \<and> list_all P es)"
  proof (cases r)
    case (Inl e)
    then show ?thesis using m w1 by (auto simp: io_bind_apply)
  next
    case (Inr x)
    from assms(2)[of x] w1(1) obtain es' where
      "map_of (files (snd (f x w1))) p = Some n"
      "events (snd (f x w1)) = events w1 @ es'" "list_all P es'"
      unfolding steady_def by blast
    then show ?thesis using m w1 Inr by (auto simp: io_bind_apply)
  qed
qed

lemma steady_try:
  assumes "steady p n P m" "\<And>e. steady p n P (h e)"
  shows "steady p n P (io_try m h)"
  unfolding steady_def
proof (intro allI impI)
  fix w :: world
  assume q: "map_of (files w) p = Some n"
  obtain r w1 where m: "m w = (r, w1)" by (cases "m w")
  have "map_of (files (snd (m w))) p = Some n \<and>
      (\<exists>es. events (snd (m w)) = events w @ es \<and> list_all P es)"
    using assms(1) q unfolding steady_def by blast
  then obtain es where w1: "map_of (files w1) p = Some n"
      "events w1 = events w @ es" "list_all P es"
    unfolding m by auto
  show "map_of (files (snd (io_try m h w))) p = Some n \<and>
      (\<exists>es. events (snd (io_try m h w)) = events w @ es \<and> list_all P es)"
  proof (cases r)
    case (Inr x)
    then show ?thesis using m w1 by (auto simp: io_try_apply)
  next
    case (Inl e)
    from assms(2)[of e] w1(1) obtain es' where
      "map_of (files (snd (h e w1))) p = Some n"
      "events (snd (h e w1)) = events w1 @ es'" "list_all P es'"
      unfolding steady_def by blast
    then show ?thesis using m w1 Inl by (auto simp: io_try_apply)
  qed
qed

lemma steady_if: "steady p n P a \<Longrightarrow> steady p n P b \<Longrightarrow> steady p n P (if c then a else b)"
  by simp

lemma steady_case_option:
  "steady p n P a \<Longrightarrow> (\<And>x. steady p n P (b x)) \<Longrightarrow>
   steady p n P (case v of None \<Rightarrow> a | Some x \<Rightarrow> b x)"
  by (cases v) simp_all

lemma steady_case_prod:
  "(\<And>a b. steady p n P (f a b)) \<Longrightarrow> steady p n P (case v of (a, b) \<Rightarrow> f a b)"
  by (cases v) simp

lemma steady_let: "steady p n P (f v) \<Longrightarrow> steady p n P (Let v f)"
  by simp

lemma steady_path_exists: "steady p n P (path_exists q)"
  by (simp add: steady_def path_exists_def)

lemma steady_now_strftime: "P (Clock fmt) \<Longrightarrow> steady p n P (now_strftime env fmt)"
  by (simp add: steady_def now_strftime_def)

lemma steady_subprocess_run:
  assumes "\<forall>k cmd t. map_of (snd (run env k cmd t)) p = map_of t p" "P (Run cmd)"
  shows "steady p n P (subprocess_run env cmd)"
  using assms by (simp add: steady_def subprocess_run_def split: prod.splits) (metis snd_conv)

lemmas steady_intros = steady_return steady_bind steady_try steady_if steady_case_option
  steady_case_prod steady_let steady_path_exists steady_now_strftime

lemma steady_derive_session_name:
  assumes "\<forall>k cmd t. map_of (snd (run env k cmd t)) p = map_of t p"
  shows "steady p n not_fs_op (derive_session_name env)"
  unfolding derive_session_name_def get_git_branch_def get_project_name_def
  by (intro steady_intros steady_subprocess_run[OF assms]) (simp_all add: not_fs_op_def)

lemma steady_run_init_script:
  assumes "\<forall>k cmd t. map_of (snd (run env k cmd t)) p = map_of t p"
  shows "steady p n not_fs_op (run_init_script env session_name)"
  unfolding run_init_script_def
  by (intro steady_intros steady_subprocess_run[OF assms]) (simp_all add: not_fs_op_def)

lemma marker_present_no_write:
  assumes "map_of (files w) task_plan = Some (Text content)"
      and "\<not> sublist ''[Your task name]'' content"
  shows "write_marker_if_missing env branch session_name w = (Inr session_name, w)"
  using assms
  by (simp add: write_marker_if_missing_def io_bind_apply path_exists_def read_text_def
      io_return_def)

definition branch_env :: env where
  \<comment> \<open>git reports the branch \<open>feature/login\<close> and no remote; child processes change no file\<close>
  "branch_env = demo_env\<lparr>run := (\<lambda>n cmd t.
       if cmd = [''git'', ''rev-parse'', ''--abbrev-ref'', ''HEAD'']
       then (Inr (0, ''feature/login'' @ [nl]), t) else (Inr (1, []), t))\<rparr>"

lemma create_run:
  "\<exists>w'. create_auto_session branch_env (marker_world ''# Task: parser rewrite'')
          = (Inr ''feature-login'', w')"
  by (simp add: create_auto_session_def get_git_branch_def get_project_name_def
      replace_char_def init_script_def run_defs branch_env_def demo_env_def marker_world_def
      strip_def py_isspace_def nl_def sublist_code prefix_code)

lemma derive_run:
  "\<exists>w'. derive_session_name branch_env (marker_world ''# Task: parser rewrite'')
          = (Inr (''feature/login'', ''feature-login''), w')"
  by (simp add: derive_session_name_def get_git_branch_def get_project_name_def
      replace_char_def run_defs branch_env_def demo_env_def marker_world_def
      strip_def py_isspace_def nl_def)

text \<open>
  C1 as stated fails.  The marker names the session \<open>parser rewrite\<close> and the repository is
  on the branch \<open>feature/login\<close>: a session is active, its name is \<open>parser rewrite\<close>, and
  \<open>create_auto_session\<close> returns \<open>feature-login\<close>, the name it derives from the branch.
\<close>

theorem create_returns_branch_name:
  "fst (has_active_session (marker_world ''# Task: parser rewrite'')) = Inr True \<and>
   fst (get_session_name (marker_world ''# Task: parser rewrite'')) = Inr (Some ''parser rewrite'') \<and>
   fst (create_auto_session branch_env (marker_world ''# Task: parser rewrite''))
     = Inr ''feature-login''"
proof -
  have "fst (has_active_session (marker_world ''# Task: parser rewrite'')) = Inr True"
    by (simp add: has_active_session_def run_defs marker_world_def sublist_code prefix_code)
  moreover have "fst (get_session_name (marker_world ''# Task: parser rewrite''))
      = Inr (Some ''parser rewrite'')"
    by (simp add: get_session_name_def run_defs marker_world_def prefix_code
        nl_def py_isspace_def line_rest_def strip_def)
  moreover have "fst (create_auto_session branch_env (marker_world ''# Task: parser rewrite''))
     = Inr ''feature-login''"
    using create_run by auto
  ultimately show ?thesis by simp
qed

text \<open>
  C1, amended.  A marker without the placeholder exists, and the child processes
  (\<open>git\<close>, the init script) leave it alone.  Then \<open>create_auto_session\<close> attempts no file
  operation of its own and the marker is what it was; the name it returns is the one derived
  from the branch or the project, whatever name the marker records.
\<close>

theorem create_with_marker_writes_nothing:
  assumes marker: "map_of (files w) task_plan = Some (Text content)"
      and filled: "\<not> sublist ''[Your task name]'' content"
      and children: "\<forall>k cmd t. map_of (snd (run env k cmd t)) task_plan = map_of t task_plan"
  shows "(\<exists>es. events (snd (create_auto_session env w)) = events w @ es \<and> list_all not_fs_op es) \<and>
         map_of (files (snd (create_auto_session env w))) task_plan = Some (Text content) \<and>
         (\<forall>name. fst (create_auto_session env w) = Inr name \<longrightarrow>
            (\<exists>branch w1. derive_session_name env w = (Inr (branch, name), w1)))"
proof -
  let ?prefix = "io_bind (derive_session_name env) (\<lambda>(branch, session_name).
        io_bind (run_init_script env session_name) (\<lambda>_. io_return (branch, session_name)))"
  have parts: "create_auto_session env =
      io_bind ?prefix (\<lambda>(branch, session_name). write_marker_if_missing env branch session_name)"
    unfolding create_auto_session_parts
    by (simp add: io_bind_assoc split_def)
  have st: "steady task_plan (Text content) not_fs_op ?prefix"
    by (intro steady_intros steady_derive_session_name[OF children]
        steady_run_init_script[OF children])
  obtain r w1 where p: "?prefix w = (r, w1)" by (cases "?prefix w")
  have "map_of (files (snd (?prefix w))) task_plan = Some (Text content) \<and>
      (\<exists>es. events (snd (?prefix w)) = events w @ es \<and> list_all not_fs_op es)"
    using st marker unfolding steady_def by blast
  then obtain es where w1: "map_of (files w1) task_plan = Some (Text content)"
      "events w1 = events w @ es" "list_all not_fs_op es"
    unfolding p by auto
  show ?thesis
  proof (cases r)
    case (Inl e)
    then have "create_auto_session env w = (Inl e, w1)"
      using p by (simp add: parts io_bind_apply)
    then show ?thesis using w1 by simp
  next
    case (Inr bn)
    obtain branch name where bn: "bn = (branch, name)" by (cases bn)
    have c: "create_auto_session env w = (Inr name, w1)"
      using p Inr bn marker_present_no_write[OF w1(1) filled]
      by (simp add: parts io_bind_apply)
    obtain r0 w0 where d: "derive_session_name env w = (r0, w0)"
      by (cases "derive_session_name env w")
    have "r0 = Inr (branch, name)"
      using p Inr bn d
      by (cases r0) (auto simp: io_bind_apply io_return_def split: prod.splits sum.splits)
    then show ?thesis using c w1 d by simp
  qed
qed

theorem create_with_marker_writes_nothing_witness:
  "map_of (files (marker_world ''# Task: parser rewrite'')) task_plan
     = Some (Text ''# Task: parser rewrite'') \<and>
   \<not> sublist ''[Your task name]'' ''# Task: parser rewrite'' \<and>
   (\<forall>k cmd t. map_of (snd (run branch_env k cmd t)) task_plan = map_of t task_plan) \<and>
   (\<exists>es. events (snd (create_auto_session branch_env (marker_world ''# Task: parser rewrite'')))
            = events (marker_world ''# Task: parser rewrite'') @ es \<and> list_all not_fs_op es) \<and>
   map_of (files (snd (create_auto_session branch_env (marker_world ''# Task: parser rewrite''))))
     task_plan = Some (Text ''# Task: parser rewrite'') \<and>
   fst (create_auto_session branch_env (marker_world ''# Task: parser rewrite''))
     = Inr ''feature-login''"
proof -
  have a: "map_of (files (marker_world ''# Task: parser rewrite'')) task_plan
     = Some (Text ''# Task: parser rewrite'')"
    by (simp add: marker_world_def task_plan_def ACTIVE_DIR_def)
  have b: "\<not> sublist ''[Your task name]'' ''# Task: parser rewrite''"
    by (simp add: sublist_code prefix_code)
  have c: "\<forall>k cmd t. map_of (snd (run branch_env k cmd t)) task_plan = map_of t task_plan"
    by (simp add: branch_env_def demo_env_def)
  have d: "fst (create_auto_session branch_env (marker_world ''# Task: parser rewrite''))
     = Inr ''feature-login''"
    using create_run by auto
  show ?thesis
    using create_with_marker_writes_nothing[OF a b c] a b c d by simp
qed

subsection \<open>C2: archiving never deletes what it has not copied\<close>

text \<open>
  The property of a file tree \<open>t\<close> that the claim is about, relative to the tree \<open>t0\<close> the
  archiving started from: every entry of the active-session directory of \<open>t0\<close> is still in
  place in \<open>t\<close>, or \<open>t\<close> holds a copy of it under the archive destination.  It is shown for
  every tree the run passes through, whatever the file system refuses on the way.
\<close>

definition kept_or_archived :: "string \<Rightarrow> fs \<Rightarrow> fs \<Rightarrow> bool" where
  \<comment> \<open>every entry the active-session directory had in \<open>t0\<close> is still there in \<open>t\<close>, or
      \<open>t\<close> has a copy of it under the archive destination\<close>
  "kept_or_archived dest t0 t =
     (\<forall>p n. prefix (ACTIVE_DIR @ ''/'') p \<and> map_of t0 p = Some n \<longrightarrow>
        map_of t p = Some n \<or> (\<exists>q. prefix (dest @ ''/'') q \<and> map_of t q = Some n))"



definition hist_ok :: "string \<Rightarrow> fs \<Rightarrow> nat \<Rightarrow> world \<Rightarrow> bool" where
  "hist_ok dest t0 k w = (\<forall>t \<in> set (drop k (history w)). kept_or_archived dest t0 t)"














lemma hist_ok_same: "history w' = history w \<Longrightarrow> hist_ok dest t0 k w \<Longrightarrow> hist_ok dest t0 k w'"
  by (simp add: hist_ok_def)
























subsection \<open>C3: escalation to the forceful signal\<close>

text \<open>
  C3.  The pid record holds a pid the operating system accepts; every liveness probe of it
  succeeds and the graceful signal is delivered without effect.  Then \<open>stop_service\<close>
  probes, sends SIGTERM, polls ten times (each poll a probe followed by a sleep of 100 ms),
  and only then sends SIGKILL; after that it removes the pid record, and it does so whether
  SIGKILL succeeded or failed with an OSError -- its result is exactly whether SIGKILL
  succeeded.  (The removal itself is assumed not to be refused by the file system.)
\<close>

theorem stop_service_escalation:
  assumes onfile: "map_of (files w) (get_pid_file service) = Some (Text s)"
      and pid: "py_int env s = Inr pid" "pid \<noteq> 0" "- pid_limit env \<le> pid" "pid < pid_limit env"
      and alive: "\<forall>k. kill_ok env k pid SIG0"
      and graceful: "\<forall>k. kill_ok env k pid SIGTERM"
      and nofault: "\<not> fs_fault env (length (events w) + 23)"
  shows "\<exists>w'. stop_service env service config w
                 = (Inr (kill_ok env (length (events w) + 22) pid SIGKILL), w')
            \<and> events w' = events w @ Kill pid SIG0 # Kill pid SIGTERM
                  # concat (replicate 10 [Kill pid SIG0, Sleep 100])
                  @ [Kill pid SIGKILL, FsOp (Unlink (get_pid_file service))]
            \<and> map_of (files w') (get_pid_file service) = None"
proof -
  let ?pf = "get_pid_file service"
  let ?w1 = "w\<lparr>events := events w @ [Kill pid SIG0]\<rparr>"
  let ?w2 = "w\<lparr>events := events w @ [Kill pid SIG0, Kill pid SIGTERM]\<rparr>"
  let ?w3 = "w\<lparr>events := events w @ Kill pid SIG0 # Kill pid SIGTERM
                  # concat (replicate 10 [Kill pid SIG0, Sleep 100])\<rparr>"
  let ?w4 = "w\<lparr>events := events w @ Kill pid SIG0 # Kill pid SIGTERM
                  # concat (replicate 10 [Kill pid SIG0, Sleep 100]) @ [Kill pid SIGKILL]\<rparr>"
  have r: "read_pid env service w = (Inr (Some pid), w)"
    using onfile pid(1) by (simp add: read_pid_eq)
  have a: "is_running env pid w = (Inr True, ?w1)"
    using pid alive by (simp add: is_running_apply)
  have t: "os_kill env pid SIGTERM ?w1 = (Inr (), ?w2)"
    using pid graceful by (simp add: os_kill_def Let_def)
  have p: "poll_loop env pid 10 ?w2 = (Inr True, ?w3)"
    using poll_loop_alive[OF alive pid(3,4), of 10 ?w2] by simp
  have len3: "length (events ?w3) = length (events w) + 22"
    by (simp add: length_concat_replicate2)
  have k: "os_kill env pid SIGKILL ?w3 =
      (if kill_ok env (length (events w) + 22) pid SIGKILL then Inr () else Inl OSError, ?w4)"
    using pid by (simp add: os_kill_def Let_def length_concat_replicate2)
  have len4: "length (events ?w4) = length (events w) + 23"
    by (simp add: length_concat_replicate2)
  have rec4: "map_of (files ?w4) ?pf = Some (Text s)" using onfile by simp
  have nf4: "\<not> fs_fault env (length (events ?w4))"
    unfolding len4 by (rule nofault)
  have u: "remove_pid env service ?w4 =
      (Inr (), ?w4\<lparr>events := events ?w4 @ [FsOp (Unlink ?pf)],
                               files := AList.delete ?pf (files ?w4),
                               history := history ?w4 @ [AList.delete ?pf (files ?w4)]\<rparr>)"
    using unlink_text[OF rec4 nf4] rec4
    by (simp add: remove_pid_def io_bind_apply path_exists_def)
  show ?thesis
    using pid(2)
    by (simp add: stop_service_def io_bind_apply io_try_apply r a t p k u io_return_def
        AList.delete_conv')
qed

theorem stop_service_escalation_witness:
  "map_of (files (pid_world ''4242'')) (get_pid_file ''web_ui'') = Some (Text ''4242'')
   \<and> py_int demo_env ''4242'' = Inr 4242
   \<and> (\<forall>k. kill_ok demo_env k 4242 SIG0) \<and> (\<forall>k. kill_ok demo_env k 4242 SIGTERM)
   \<and> (\<exists>w'. stop_service demo_env ''web_ui'' demo_config (pid_world ''4242'') = (Inr False, w')
      \<and> events w' = Kill 4242 SIG0 # Kill 4242 SIGTERM
                  # concat (replicate 10 [Kill 4242 SIG0, Sleep 100])
                  @ [Kill 4242 SIGKILL, FsOp (Unlink ''.pids/web_ui.pid'')]
      \<and> map_of (files w') ''.pids/web_ui.pid'' = None)"
  using stop_service_escalation[of "pid_world ''4242''" "''web_ui''" "''4242''" demo_env 4242
      demo_config] py_int_4242[of demo_env]
  by (simp add: pid_world_def get_pid_file_def PID_DIR_def demo_env_def)

subsection \<open>C4: when the pid record is deleted\<close>

text \<open>
  C4 as stated fails.  A start whose freshly spawned process is dead after the settle
  window returns failure and leaves the record with the dead pid on file; and \<open>status\<close>,
  which finds that pid dead, leaves the record too.
\<close>

theorem dead_process_record_stays:
  "fst (start_service dead_env ''web_ui'' demo_config dirs_world) = Inr False \<and>
   map_of (files (snd (start_service dead_env ''web_ui'' demo_config dirs_world)))
     (get_pid_file ''web_ui'') = Some (Text ''4242'') \<and>
   fst (is_running dead_env 4242 (pid_world ''4242'')) = Inr False \<and>
   map_of (files (snd (status dead_env (pid_world ''4242'')))) (get_pid_file ''web_ui'')
     = Some (Text ''4242'')"
proof -
  have a: "fst (start_service dead_env ''web_ui'' demo_config dirs_world) = Inr False"
    by (simp add: start_service_dead_run)
  have b: "map_of (files (snd (start_service dead_env ''web_ui'' demo_config dirs_world)))
     (get_pid_file ''web_ui'') = Some (Text ''4242'')"
    by (simp add: start_service_dead_run get_pid_file_def PID_DIR_def)
  have c: "fst (is_running dead_env 4242 (pid_world ''4242'')) = Inr False"
    by (simp add: is_running_apply dead_env_def demo_env_def)
  have "files (snd (status dead_env (pid_world ''4242''))) = files (pid_world ''4242'')"
    using keeps_status[of dead_env] by (simp add: keeps_files_def)
  then have d: "map_of (files (snd (status dead_env (pid_world ''4242''))))
      (get_pid_file ''web_ui'') = Some (Text ''4242'')"
    by (simp add: get_pid_file_def PID_DIR_def pid_world_def)
  show ?thesis using a b c d by simp
qed

text \<open>
  C4, amended.  Deleting the record is the work of \<open>stop_service\<close> alone: whenever it
  returns a result -- the recorded process was found dead, was stopped, or could not be
  signalled -- the pid record of the service is gone.  \<open>start_service\<close> never deletes a
  file, and \<open>status\<close> leaves the file tree as it is.
\<close>

theorem pid_record_lifecycle:
  "(stop_service env service config w = (Inr b, w')
      \<longrightarrow> map_of (files w') (get_pid_file service) = None) \<and>
   (\<exists>es. events (snd (start_service env service config w)) = events w @ es
         \<and> list_all not_unlink es) \<and>
   files (snd (status env w)) = files w"
  using stop_service_removes[of service env config] start_service_never_unlinks[of env service config]
    keeps_status[of env]
  by (simp add: ensures_def emits_def keeps_files_def)

theorem pid_record_lifecycle_witness:
  "stop_service dead_env ''web_ui'' demo_config (pid_world ''4242'')
     = (Inr True, \<lparr>files = [(''.pids'', Dir)],
                   events = [Kill 4242 SIG0, FsOp (Unlink ''.pids/web_ui.pid'')],
                   history = [[(''.pids'', Dir)]]\<rparr>) \<and>
   map_of [(''.pids'', Dir)] (get_pid_file ''web_ui'') = None \<and>
   (\<exists>es. events (snd (start_service dead_env ''web_ui'' demo_config dirs_world)) = events dirs_world @ es
         \<and> list_all not_unlink es) \<and>
   files (snd (status dead_env (pid_world ''4242''))) = files (pid_world ''4242'')"
proof -
  have run: "stop_service dead_env ''web_ui'' demo_config (pid_world ''4242'')
     = (Inr True, \<lparr>files = [(''.pids'', Dir)],
                   events = [Kill 4242 SIG0, FsOp (Unlink ''.pids/web_ui.pid'')],
                   history = [[(''.pids'', Dir)]]\<rparr>)"
    by (simp add: stop_service_def read_pid_eq io_bind_apply io_return_def is_running_apply
        remove_pid_def path_exists_def unlink_def fs_mutate_def unlink_fs_def Let_def
        pid_world_def get_pid_file_def PID_DIR_def dead_env_def demo_env_def py_int_4242)
  show ?thesis
    using pid_record_lifecycle[of dead_env "''web_ui''" demo_config "pid_world ''4242''" True
        "\<lparr>files = [(''.pids'', Dir)],
          events = [Kill 4242 SIG0, FsOp (Unlink ''.pids/web_ui.pid'')],
          history = [[(''.pids'', Dir)]]\<rparr>"]
      pid_record_lifecycle[of dead_env "''web_ui''" demo_config dirs_world]
      run
    by simp
qed

subsection \<open>C5: exit codes\<close>























subsection \<open>C6: status is read-only\<close>

definition probe_event :: "event \<Rightarrow> bool" where
  \<comment> \<open>the two system calls that only look: a liveness probe and a connect to a port\<close>
  "probe_event e = (case e of Kill pid sg \<Rightarrow> sg = SIG0 | Connect port \<Rightarrow> True | _ \<Rightarrow> False)"

text \<open>
  C6.  From every world and under every environment, also when it ends in an exception,
  \<open>status\<close> leaves the file tree exactly as it found it and passes through no other tree;
  the only system calls it makes are liveness probes (signal 0) and connects to a port.  So
  it creates, deletes and writes nothing.
\<close>

theorem status_read_only:
  "files (snd (status env w)) = files w \<and> history (snd (status env w)) = history w \<and>
   (\<exists>es. events (snd (status env w)) = events w @ es \<and> list_all probe_event es)"
proof -
  have "emits probe_event (status env)"
    by (rule emits_status) (simp_all add: probe_event_def)
  then show ?thesis
    using keeps_status[of env] by (simp add: emits_def keeps_files_def)
qed

subsection \<open>C7: stopping a service that has no pid record\<close>



subsection \<open>C8: reading a pid record never raises\<close>


subsection \<open>C9: an active session without a name\<close>

text \<open>
  C9.  There are session markers for which \<open>has_active_session\<close> answers True while
  \<open>get_session_name\<close> answers None: one that has \<open># Task:\<close> only in the middle of a line,
  and one whose header line has nothing but blanks after \<open># Task:\<close>.
\<close>

theorem active_session_without_name:
  "fst (has_active_session (marker_world ''Notes on # Task: parser'')) = Inr True \<and>
   fst (get_session_name (marker_world ''Notes on # Task: parser'')) = Inr None \<and>
   fst (has_active_session (marker_world ''# Task:   '')) = Inr True \<and>
   fst (get_session_name (marker_world ''# Task:   '')) = Inr None"
  by (simp add: has_active_session_def get_session_name_def io_bind_apply path_exists_def
      read_text_def io_return_def marker_world_def task_plan_def ACTIVE_DIR_def
      sublist_code prefix_code nl_def py_isspace_def line_rest_def strip_def)

subsection \<open>C10: archiving when today's archive directory is already there\<close>

definition not_copy_or_unlink :: "event \<Rightarrow> bool" where
  "not_copy_or_unlink e =
     (case e of FsOp (Copy src dst) \<Rightarrow> False | FsOp (Unlink p) \<Rightarrow> False | _ \<Rightarrow> True)"

lemma mkdir_exist_ok_existing:
  "map_of (files w) p = Some Dir \<Longrightarrow>
   mkdir_exist_ok env p w = (Inr (), w\<lparr>events := events w @ [FsOp (Mkdir p)]\<rparr>)"
  by (simp add: mkdir_exist_ok_def io_try_apply mkdir_def fs_mutate_def mkdir_fs_def Let_def)

lemma simple_archive_existing:
  assumes "map_of (files w) ''archive'' = Some Dir"
      and "map_of (files w)
             (archive_dest (strftime env (Suc (length (events w))) ''%Y-%m-%d'') session_name)
           \<noteq> None"
  shows "simple_archive env session_name w =
     (Inr False, w\<lparr>events := events w @ [FsOp (Mkdir ''archive''), Clock ''%Y-%m-%d'']\<rparr>)"
proof -
  from assms(2) obtain y where "map_of (files w)
      (archive_dest (strftime env (Suc (length (events w))) ''%Y-%m-%d'') session_name) = Some y"
    by blast
  then show ?thesis
    using assms(1)
    by (simp add: simple_archive_def io_bind_apply mkdir_exist_ok_existing now_strftime_def
        path_exists_def io_return_def Let_def)
qed

text \<open>
  C10.  A session is active, the archive script is there and ends with a non-zero return
  code, the child processes change no file, and the directory for today's date and the
  session's name already exists in the archive directory.  Then \<open>archive_session\<close> returns
  False and leaves the whole file tree, the active-session directory included, as it was:
  it copies nothing and deletes nothing.
\<close>

theorem archive_destination_exists:
  assumes marker: "map_of (files w) task_plan = Some (Text content)"
          "sublist ''# Task:'' content" "\<not> sublist ''[Your task name]'' content"
      and name: "get_session_name w = (Inr session_name, w)"
      and children: "\<forall>k cmd t. snd (run env k cmd t) = t"
      and script: "map_of (files w) archive_script \<noteq> None"
      and fails: "\<forall>k t. \<exists>rc out. fst (run env k [''bash'', archive_script] t) = Inr (rc, out) \<and> rc \<noteq> 0"
      and today: "\<forall>k. strftime env k ''%Y-%m-%d'' = date"
      and root: "map_of (files w) ''archive'' = Some Dir"
      and dest: "map_of (files w) (archive_dest date session_name) \<noteq> None"
  shows "\<exists>w' es. archive_session env w = (Inr False, w') \<and> files w' = files w \<and>
           events w' = events w @ es \<and> list_all not_copy_or_unlink es"
proof -
  let ?summary = "io_try
            (io_bind (path_exists summarizer) (\<lambda>ex.
               if ex then
                 io_bind (subprocess_run env [executable env, summarizer, ''--format'', ''yaml''])
                   (\<lambda>_. io_return ())
               else io_return ()))
            (\<lambda>e. io_return ())"
  have act: "has_active_session w = (Inr True, w)"
    using marker
    by (simp add: has_active_session_def io_bind_apply path_exists_def read_text_def io_return_def)
  from summary_step[OF children, of w] obtain es hs where
    s: "?summary w = (Inr (), w\<lparr>events := events w @ es, history := history w @ hs\<rparr>)"
    and es0: "set es \<subseteq> {Run [executable env, summarizer, ''--format'', ''yaml'']}" by blast
  have es: "list_all not_copy_or_unlink es"
    using es0 by (auto simp: list_all_iff not_copy_or_unlink_def)
  let ?w1 = "w\<lparr>events := events w @ es, history := history w @ hs\<rparr>"
  let ?cmd = "[''bash'', archive_script]"
  obtain r t where rn: "run env (length (events ?w1)) ?cmd (files ?w1) = (r, t)"
    by (cases "run env (length (events ?w1)) ?cmd (files ?w1)")
  have t: "t = files w"
    using children[rule_format, of "length (events ?w1)" ?cmd "files ?w1"] rn by simp
  from fails[rule_format, of "length (events ?w1)" "files ?w1"]
  obtain rc out where "fst (run env (length (events ?w1)) ?cmd (files ?w1)) = Inr (rc, out)"
    and rc: "rc \<noteq> 0" by blast
  then have r: "r = Inr (rc, out)" using rn by simp
  let ?w2 = "?w1\<lparr>files := t, events := events ?w1 @ [Run ?cmd], history := history ?w1 @ [t]\<rparr>"
  have sr: "subprocess_run env ?cmd ?w1 = (Inr (rc, out), ?w2)"
    using rn r by (simp add: subprocess_run_def)
  have sa: "simple_archive env session_name ?w2 =
     (Inr False, ?w2\<lparr>events := events ?w2 @ [FsOp (Mkdir ''archive''), Clock ''%Y-%m-%d'']\<rparr>)"
    by (rule simple_archive_existing) (use t root dest today in simp_all)
  have pe: "path_exists archive_script ?w1 = (Inr True, ?w1)"
    using script by (simp add: path_exists_def)
  have "archive_session env w =
     (Inr False, ?w2\<lparr>events := events ?w2 @ [FsOp (Mkdir ''archive''), Clock ''%Y-%m-%d'']\<rparr>)"
    unfolding archive_session_def
    using rc sa
    by (simp add: io_bind_apply act name s pe sr)
  then show ?thesis
    using es t by (simp add: not_copy_or_unlink_def)
qed


definition archived_world :: world where
  \<comment> \<open>an active session \<open>demo\<close>, an archive script, and the archive of 2024-01-02 in place\<close>
  "archived_world = \<lparr>files = [(''active'', Dir), (''active/task_plan.md'', Text ''# Task: demo''),
       (''active/notes.md'', Text ''notes''), (''scripts'', Dir),
       (''scripts/archive-task.sh'', Text ''exit 1''), (''archive'', Dir),
       (''archive/2024-01-02_demo'', Dir)],
     events = [], history = []\<rparr>"

theorem archive_destination_exists_witness:
  "map_of (files archived_world) task_plan = Some (Text ''# Task: demo'') \<and>
   sublist ''# Task:'' ''# Task: demo'' \<and>
   get_session_name archived_world = (Inr (Some ''demo''), archived_world) \<and>
   (\<forall>k cmd t. snd (run demo_env k cmd t) = t) \<and>
   (\<forall>k t. \<exists>rc out. fst (run demo_env k [''bash'', archive_script] t) = Inr (rc, out) \<and> rc \<noteq> 0) \<and>
   map_of (files archived_world) (archive_dest ''2024-01-02'' (Some ''demo'')) = Some Dir \<and>
   (\<exists>w' es. archive_session demo_env archived_world = (Inr False, w') \<and>
      files w' = files archived_world \<and>
      events w' = events archived_world @ es \<and> list_all not_copy_or_unlink es)"
proof -
  have a: "map_of (files archived_world) task_plan = Some (Text ''# Task: demo'')"
    by (simp add: archived_world_def task_plan_def ACTIVE_DIR_def)
  have b: "sublist ''# Task:'' ''# Task: demo''" "\<not> sublist ''[Your task name]'' ''# Task: demo''"
    by (simp_all add: sublist_code prefix_code)
  have c: "get_session_name archived_world = (Inr (Some ''demo''), archived_world)"
    by (simp add: get_session_name_def run_defs archived_world_def prefix_code
        nl_def py_isspace_def line_rest_def strip_def)
  have d: "\<forall>k cmd t. snd (run demo_env k cmd t) = t"
    by (simp add: demo_env_def)
  have e: "map_of (files archived_world) archive_script \<noteq> None"
    by (simp add: archived_world_def archive_script_def SCRIPT_DIR_def)
  have f: "\<forall>k t. \<exists>rc out. fst (run demo_env k [''bash'', archive_script] t) = Inr (rc, out) \<and> rc \<noteq> 0"
    by (simp add: demo_env_def)
  have g: "\<forall>k. strftime demo_env k ''%Y-%m-%d'' = ''2024-01-02''"
    by (simp add: demo_env_def)
  have h: "map_of (files archived_world) ''archive'' = Some Dir"
    by (simp add: archived_world_def)
  have i: "map_of (files archived_world) (archive_dest ''2024-01-02'' (Some ''demo'')) = Some Dir"
    by (simp add: archived_world_def archive_dest_def)
  then have i': "map_of (files archived_world) (archive_dest ''2024-01-02'' (Some ''demo'')) \<noteq> None"
    by simp
  show ?thesis
    using archive_destination_exists[OF a b c d e f g h i'] a b c d f i by simp
qed

end
